theory Spec2Isabelle
  imports Complex_Main
begin

section \<open>JavaScript numbers and text fields\<close>

text \<open>
  The calculators compute on JavaScript numbers. A number is modelled as a real, or one of
  the three non-finite values. The operations of this section are exact on the finite
  numbers; rounding to binary64 and overflow are a separate function, defined in the next
  section. Zero has no sign (a division by zero takes the divisor as \<open>+0\<close>).
  The non-finite values follow ECMAScript: \<open>x / 0\<close> is an infinity or \<open>NaN\<close>,
  \<open>NaN\<close> is absorbing, and every comparison with \<open>NaN\<close> is false.
\<close>

datatype jsnum = Fin real | PInf | NInf | NaN

instantiation jsnum :: "{plus, minus, uminus, times, inverse, ord}"
begin

fun plus_jsnum :: "jsnum \<Rightarrow> jsnum \<Rightarrow> jsnum" where
  "plus_jsnum (Fin a) (Fin b) = Fin (a + b)"
| "plus_jsnum NaN _ = NaN"
| "plus_jsnum _ NaN = NaN"
| "plus_jsnum PInf NInf = NaN"
| "plus_jsnum NInf PInf = NaN"
| "plus_jsnum PInf _ = PInf"
| "plus_jsnum _ PInf = PInf"
| "plus_jsnum NInf _ = NInf"
| "plus_jsnum _ NInf = NInf"

fun uminus_jsnum :: "jsnum \<Rightarrow> jsnum" where
  "uminus_jsnum (Fin a) = Fin (- a)"
| "uminus_jsnum PInf = NInf"
| "uminus_jsnum NInf = PInf"
| "uminus_jsnum NaN = NaN"

definition minus_jsnum :: "jsnum \<Rightarrow> jsnum \<Rightarrow> jsnum" where
  "minus_jsnum a b = a + (- b)"

fun times_jsnum :: "jsnum \<Rightarrow> jsnum \<Rightarrow> jsnum" where
  "times_jsnum (Fin a) (Fin b) = Fin (a * b)"
| "times_jsnum NaN _ = NaN"
| "times_jsnum _ NaN = NaN"
| "times_jsnum (Fin a) PInf = (if a = 0 then NaN else if 0 < a then PInf else NInf)"
| "times_jsnum (Fin a) NInf = (if a = 0 then NaN else if 0 < a then NInf else PInf)"
| "times_jsnum PInf (Fin b) = (if b = 0 then NaN else if 0 < b then PInf else NInf)"
| "times_jsnum NInf (Fin b) = (if b = 0 then NaN else if 0 < b then NInf else PInf)"
| "times_jsnum PInf PInf = PInf"
| "times_jsnum PInf NInf = NInf"
| "times_jsnum NInf PInf = NInf"
| "times_jsnum NInf NInf = PInf"

fun divide_jsnum :: "jsnum \<Rightarrow> jsnum \<Rightarrow> jsnum" where
  "divide_jsnum (Fin a) (Fin b) =
     (if b \<noteq> 0 then Fin (a / b) else if a = 0 then NaN else if 0 < a then PInf else NInf)"
| "divide_jsnum NaN _ = NaN"
| "divide_jsnum _ NaN = NaN"
| "divide_jsnum (Fin a) PInf = Fin 0"
| "divide_jsnum (Fin a) NInf = Fin 0"
| "divide_jsnum PInf (Fin b) = (if 0 \<le> b then PInf else NInf)"
| "divide_jsnum NInf (Fin b) = (if 0 \<le> b then NInf else PInf)"
| "divide_jsnum PInf PInf = NaN"
| "divide_jsnum PInf NInf = NaN"
| "divide_jsnum NInf PInf = NaN"
| "divide_jsnum NInf NInf = NaN"

definition inverse_jsnum :: "jsnum \<Rightarrow> jsnum" where
  "inverse_jsnum a = divide (Fin 1) a"

fun less_jsnum :: "jsnum \<Rightarrow> jsnum \<Rightarrow> bool" where
  "less_jsnum (Fin a) (Fin b) = (a < b)"
| "less_jsnum NaN _ = False"
| "less_jsnum _ NaN = False"
| "less_jsnum _ NInf = False"
| "less_jsnum PInf _ = False"
| "less_jsnum NInf _ = True"
| "less_jsnum _ PInf = True"

fun less_eq_jsnum :: "jsnum \<Rightarrow> jsnum \<Rightarrow> bool" where
  "less_eq_jsnum (Fin a) (Fin b) = (a \<le> b)"
| "less_eq_jsnum NaN _ = False"
| "less_eq_jsnum _ NaN = False"
| "less_eq_jsnum NInf _ = True"
| "less_eq_jsnum _ PInf = True"
| "less_eq_jsnum _ NInf = False"
| "less_eq_jsnum PInf _ = False"

instance ..

end

text \<open>\<open>Math.max\<close>, \<open>Math.round\<close> (halves go up) and \<open>Math.ceil\<close>.\<close>

fun Math_max :: "jsnum \<Rightarrow> jsnum \<Rightarrow> jsnum" where
  "Math_max (Fin a) (Fin b) = Fin (max a b)"
| "Math_max NaN _ = NaN"
| "Math_max _ NaN = NaN"
| "Math_max PInf _ = PInf"
| "Math_max _ PInf = PInf"
| "Math_max NInf b = b"
| "Math_max a NInf = a"

fun Math_round :: "jsnum \<Rightarrow> jsnum" where
  "Math_round (Fin a) = Fin (of_int \<lfloor>a + 1 / 2\<rfloor>)"
| "Math_round x = x"

fun Math_ceil :: "jsnum \<Rightarrow> jsnum" where
  "Math_ceil (Fin a) = Fin (of_int \<lceil>a\<rceil>)"
| "Math_ceil x = x"

text \<open>
  \<open>Math.pow\<close> on two finite numbers: an integral exponent is a power (or its inverse),
  a negative base with a fractional exponent is \<open>NaN\<close>, and a positive base is the real
  power.
\<close>

definition pow_fin :: "real \<Rightarrow> real \<Rightarrow> jsnum" where
  "pow_fin x y =
     (if y = 0 then Fin 1
      else if y = of_int \<lfloor>y\<rfloor> then
        (if 0 < y then Fin (x ^ nat \<lfloor>y\<rfloor>)
         else if x = 0 then PInf
         else Fin (1 / x ^ nat (- \<lfloor>y\<rfloor>)))
      else if x < 0 then NaN
      else if x = 0 then (if 0 < y then Fin 0 else PInf)
      else Fin (x powr y))"

fun Math_pow :: "jsnum \<Rightarrow> jsnum \<Rightarrow> jsnum" where
  "Math_pow (Fin x) (Fin y) = pow_fin x y"
| "Math_pow _ NaN = NaN"
| "Math_pow NaN (Fin y) = (if y = 0 then Fin 1 else NaN)"
| "Math_pow NaN _ = NaN"
| "Math_pow (Fin x) PInf = (if 1 < \<bar>x\<bar> then PInf else if \<bar>x\<bar> < 1 then Fin 0 else NaN)"
| "Math_pow (Fin x) NInf = (if 1 < \<bar>x\<bar> then Fin 0 else if \<bar>x\<bar> < 1 then PInf else NaN)"
| "Math_pow PInf (Fin y) = (if y = 0 then Fin 1 else if 0 < y then PInf else Fin 0)"
| "Math_pow NInf (Fin y) =
     (if y = 0 then Fin 1
      else if 0 < y then (if y = of_int \<lfloor>y\<rfloor> \<and> odd \<lfloor>y\<rfloor> then NInf else PInf)
      else Fin 0)"
| "Math_pow PInf PInf = PInf"
| "Math_pow PInf NInf = Fin 0"
| "Math_pow NInf PInf = PInf"
| "Math_pow NInf NInf = Fin 0"

text \<open>\<open>ToBoolean\<close> on a number: zero and \<open>NaN\<close> are falsy.\<close>

fun truthy :: "jsnum \<Rightarrow> bool" where
  "truthy (Fin a) = (a \<noteq> 0)"
| "truthy NaN = False"
| "truthy _ = True"

text \<open>\<open>a || b\<close> on numbers.\<close>

definition js_or :: "jsnum \<Rightarrow> jsnum \<Rightarrow> jsnum" where
  "js_or a b = (if truthy a then a else b)"

text \<open>
  A form field is the string of a number input: the empty string (\<open>None\<close>) or a decimal
  numeral with an integer part and without exponent (\<open>Some x\<close>). \<open>!field\<close> holds for the
  empty string only. \<open>parseFloat\<close> of the empty string is \<open>NaN\<close>; \<open>parseInt\<close> reads the
  integer part of the numeral.
\<close>

type_synonym field = "real option"

definition parseFloat :: "field \<Rightarrow> jsnum" where
  "parseFloat s = (case s of None \<Rightarrow> NaN | Some x \<Rightarrow> Fin x)"

definition parseInt :: "field \<Rightarrow> jsnum" where
  "parseInt s =
     (case s of None \<Rightarrow> NaN
      | Some x \<Rightarrow> Fin (of_int (if 0 \<le> x then \<lfloor>x\<rfloor> else \<lceil>x\<rceil>)))"

text \<open>
  The values of \<open>year\<close> in \<open>for (let year = a; year <= b; year++)\<close>. With \<open>b\<close> infinite
  the loop never ends (\<open>None\<close>); with \<open>b\<close> \<open>NaN\<close> the test fails at once.
\<close>

fun for_range :: "nat \<Rightarrow> jsnum \<Rightarrow> nat list option" where
  "for_range a (Fin b) = Some [a ..< nat (\<lfloor>b\<rfloor> + 1)]"
| "for_range a PInf = None"
| "for_range a _ = Some []"

section \<open>Rounding to binary64\<close>

text \<open>
  A JavaScript number is a binary64 value: the result of an operation is the exact result
  rounded to the nearest number with a significand of 53 bits, a tie going to the even
  significand, and a rounded result of magnitude \<open>2^1024\<close> or more is an infinity.
  \<open>round64\<close> is this rounding on the reals: the exponent of \<open>x\<close> is
  \<open>\<lfloor>log\<^sub>2 |x|\<rfloor>\<close>, at least \<open>-1022\<close> (below that the numbers are subnormal), and the spacing
  of the numbers around \<open>x\<close> is \<open>2\<close> to the power of the exponent minus 52.
\<close>

definition round_even :: "real \<Rightarrow> int" where
  "round_even r =
     (let f = \<lfloor>r\<rfloor>; d = r - of_int f
      in if d < 1 / 2 then f
         else if 1 / 2 < d then f + 1
         else if even f then f else f + 1)"

definition exponent64 :: "real \<Rightarrow> int" where
  "exponent64 x = max \<lfloor>log 2 \<bar>x\<bar>\<rfloor> (- 1022)"

definition ulp64 :: "real \<Rightarrow> real" where
  "ulp64 x = 2 powr of_int (exponent64 x - 52)"

definition round64 :: "real \<Rightarrow> real" where
  "round64 x = (if x = 0 then 0 else of_int (round_even (x / ulp64 x)) * ulp64 x)"

text \<open>
  \<open>fl a\<close> is the JavaScript number that an operation with the exact result \<open>a\<close> returns.
  The EMI, the FD-sustainability and the Buy-vs-Rent calculator are modelled in binary64:
  every operation of their source is the exact operation on \<open>jsnum\<close> followed by \<open>fl\<close>.
  \<open>Math.max\<close>, \<open>Math.round\<close> and \<open>Math.ceil\<close> return a number exactly, and so do the
  comparisons. The other calculators are modelled with exact arithmetic.
\<close>

fun fl :: "jsnum \<Rightarrow> jsnum" where
  "fl (Fin x) =
     (if 2 ^ 1024 \<le> round64 x then PInf
      else if round64 x \<le> - (2 ^ 1024) then NInf
      else Fin (round64 x))"
| "fl PInf = PInf"
| "fl NInf = NInf"
| "fl NaN = NaN"

text \<open>
  \<open>parseFloat\<close> and \<open>parseInt\<close> return the number nearest to the numeral they read.
  \<open>Math.pow\<close> is taken to return the rounded exact power (ECMAScript leaves its precision
  to the implementation).
\<close>

definition parseFloat64 :: "field \<Rightarrow> jsnum" where
  "parseFloat64 s = fl (parseFloat s)"

definition parseInt64 :: "field \<Rightarrow> jsnum" where
  "parseInt64 s = fl (parseInt s)"

definition Math_pow64 :: "jsnum \<Rightarrow> jsnum \<Rightarrow> jsnum" where
  "Math_pow64 a b = fl (Math_pow a b)"

section \<open>EMI calculator\<close>

record EMIYear =
  emi_year :: nat
  remainingBalance :: jsnum
  totalPaid :: jsnum
  principalPaid :: jsnum
  interestPaid :: jsnum

record EMIResults =
  emi :: jsnum
  totalAmount :: jsnum
  totalInterest :: jsnum
  emi_yearlyData :: "EMIYear list"

text \<open>The body of the yearly loop of \<open>calculateResults\<close>, in binary64; \<open>rb\<close> and \<open>paid\<close>
  are the loop's \<open>remainingBalance\<close> and \<open>totalPaid\<close>, \<open>P\<close> is \<open>principal\<close>.\<close>

fun emi_loop :: "jsnum \<Rightarrow> jsnum \<Rightarrow> jsnum \<Rightarrow> nat list \<Rightarrow> jsnum \<Rightarrow> jsnum \<Rightarrow> EMIYear list" where
  "emi_loop P time yearlyEMI [] rb paid = []"
| "emi_loop P time yearlyEMI (year # rest) rb paid =
     (let paid' = fl (paid + yearlyEMI);
          interestForYear = fl (yearlyEMI - fl (fl (P * Fin 12) / time));
          rb' = Math_max (Fin 0) (fl (rb - fl (yearlyEMI - interestForYear)))
      in \<lparr> emi_year = year,
           remainingBalance = Math_round rb',
           totalPaid = Math_round paid',
           principalPaid = Math_round (fl (P - rb')),
           interestPaid = Math_round (fl (paid' - fl (P - rb'))) \<rparr>
         # emi_loop P time yearlyEMI rest rb' paid')"

text \<open>\<open>calculateResults\<close>, in binary64: \<open>None\<close> when the function returns without
  \<open>setResults\<close>. \<open>pw\<close> is the value of \<open>Math.pow(1 + rate, time)\<close>, which the source
  computes twice.\<close>

definition calculateResults :: "field \<Rightarrow> field \<Rightarrow> field \<Rightarrow> EMIResults option" where
  "calculateResults loanAmount interestRate loanTerm =
     (let P = parseFloat64 loanAmount;
          rate = fl (fl (parseFloat64 interestRate / Fin 12) / Fin 100);
          time = fl (parseFloat64 loanTerm * Fin 12)
      in if \<not> truthy P \<or> \<not> truthy rate \<or> \<not> truthy time then None
         else
           let pw = Math_pow64 (fl (Fin 1 + rate)) time;
               emi' = fl (fl (fl (P * rate) * pw) / fl (pw - Fin 1));
               totalAmount' = fl (emi' * time);
               totalInterest' = fl (totalAmount' - P);
               yearlyEMI = fl (emi' * Fin 12)
           in case for_range 1 (Math_ceil (fl (time / Fin 12))) of
                None \<Rightarrow> None
              | Some years \<Rightarrow>
                  Some \<lparr> emi = Math_round emi',
                         totalAmount = Math_round totalAmount',
                         totalInterest = Math_round totalInterest',
                         emi_yearlyData = emi_loop P time yearlyEMI years P (Fin 0) \<rparr>)"

section \<open>SIP calculator\<close>

record SIPMonth =
  month :: nat
  invested :: jsnum
  projectedValue :: jsnum

record SIPResults =
  futureValue :: jsnum
  investedAmount :: jsnum
  monthlyData :: "SIPMonth list"
  wealthGained :: jsnum

text \<open>
  The number of elements of \<open>Array.from({ length: x }, f)\<close>: \<open>x\<close> truncated, at least 0.
  An infinite length never yields an array (\<open>None\<close>).
\<close>

fun array_length :: "jsnum \<Rightarrow> nat option" where
  "array_length (Fin x) = Some (nat \<lfloor>x\<rfloor>)"
| "array_length PInf = None"
| "array_length _ = Some 0"

text \<open>
  \<open>calculateSIP\<close>. The state \<open>monthlyInvestment\<close> is a number, \<open>years\<close> and
  \<open>expectedReturn\<close> are strings.
\<close>

definition calculateSIP :: "jsnum \<Rightarrow> field \<Rightarrow> field \<Rightarrow> SIPResults option" where
  "calculateSIP monthlyInvestment years expectedReturn =
     (let monthlyRate = parseFloat expectedReturn / (Fin 12 * Fin 100);
          months = parseFloat years * Fin 12;
          investedAmount' = monthlyInvestment * months;
          futureValue' = monthlyInvestment *
            ((Math_pow (Fin 1 + monthlyRate) months - Fin 1) / monthlyRate) *
            (Fin 1 + monthlyRate)
      in case array_length (months + Fin 1) of
           None \<Rightarrow> None
         | Some len \<Rightarrow>
             Some \<lparr> futureValue = futureValue',
                    investedAmount = investedAmount',
                    monthlyData = map (\<lambda>i.
                      \<lparr> month = i,
                        invested = monthlyInvestment * Fin (real i),
                        projectedValue = monthlyInvestment *
                          ((Math_pow (Fin 1 + monthlyRate) (Fin (real i)) - Fin 1) / monthlyRate) *
                          (Fin 1 + monthlyRate) \<rparr>) [0 ..< len],
                    wealthGained = futureValue' - investedAmount' \<rparr>)"

text \<open>
  The future value of the annuity-due series in the specification's words:
  \<open>FV = contribution * ((1+r)^n - 1)/r * (1+r)\<close>.
\<close>

definition spec_future_value :: "real \<Rightarrow> real \<Rightarrow> real \<Rightarrow> real" where
  "spec_future_value c r n = c * ((1 + r) powr n - 1) / r * (1 + r)"

section \<open>Capital-gains tax calculator\<close>

text \<open>The two display strings \<open>capitalGainsInWords\<close> and \<open>taxLiabilityInWords\<close> of the
  source's \<open>TaxResults\<close> are left out.\<close>

record TaxResults =
  capitalGains :: jsnum
  taxLiability :: jsnum
  purchaseAmount :: jsnum
  saleAmount :: jsnum

text \<open>\<open>calculateTax\<close>: the prices are number fields, the dates are the strings of the date
  inputs. With an empty field the function alerts and returns (\<open>None\<close>).\<close>

definition calculateTax :: "field \<Rightarrow> field \<Rightarrow> string \<Rightarrow> string \<Rightarrow> TaxResults option" where
  "calculateTax purchasePrice salePrice purchaseDate saleDate =
     (if purchasePrice = None \<or> salePrice = None \<or> purchaseDate = [] \<or> saleDate = [] then None
      else
        let purchase = parseFloat purchasePrice;
            sale = parseFloat salePrice;
            gains = sale - purchase;
            tax = gains * Fin 0.20
        in Some \<lparr> capitalGains = gains,
                  taxLiability = tax,
                  purchaseAmount = purchase,
                  saleAmount = sale \<rparr>)"

section \<open>Tax-deferral calculator\<close>








section \<open>FD-sustainability calculator\<close>


datatype severity = success | warning | info











section \<open>Buy-vs-Rent calculator\<close>












section \<open>FIRE calculator\<close>

record FIREYear =
  fire_year :: nat
  fire_age :: jsnum
  savings :: jsnum
  fire_investmentReturns :: jsnum
  totalCorpus :: jsnum
  yearlyExpenses :: jsnum

record FIREResults =
  targetAmount :: jsnum
  yearsToFIRE :: jsnum
  fire_monthlyInvestmentRequired :: jsnum
  projections :: "FIREYear list"

text \<open>\<open>validateInputs\<close> of the FIRE calculator, as the names of the fields in error.\<close>

definition fire_errors ::
  "field \<Rightarrow> field \<Rightarrow> field \<Rightarrow> field \<Rightarrow> field \<Rightarrow> field \<Rightarrow> field \<Rightarrow> field \<Rightarrow> field \<Rightarrow> string list" where
  "fire_errors currentAge currentSavings monthlyIncome monthlyExpenses savingsRate
     preRetirementReturn postRetirementReturn targetRetirementAge inflationRate =
     (if currentAge = None then [''currentAge'']
      else if parseInt currentAge < Fin 18 \<or> Fin 100 < parseInt currentAge
        then [''currentAge''] else []) @
     (if currentSavings = None then [''currentSavings''] else []) @
     (if monthlyIncome = None then [''monthlyIncome''] else []) @
     (if monthlyExpenses = None then [''monthlyExpenses''] else []) @
     (if savingsRate = None then [''savingsRate'']
      else if parseFloat savingsRate < Fin 0 \<or> Fin 100 < parseFloat savingsRate
        then [''savingsRate''] else []) @
     (if preRetirementReturn = None then [''preRetirementReturn''] else []) @
     (if postRetirementReturn = None then [''postRetirementReturn''] else []) @
     (if targetRetirementAge = None then [''targetRetirementAge'']
      else if parseInt targetRetirementAge \<le> parseInt currentAge
        then [''targetRetirementAge''] else []) @
     (if inflationRate = None then [''inflationRate''] else [])"

text \<open>The yearly loop of \<open>calculateFIRE\<close>; \<open>corpus\<close> is \<open>currentCorpus\<close>.\<close>

fun fire_loop ::
  "jsnum \<Rightarrow> jsnum \<Rightarrow> jsnum \<Rightarrow> jsnum \<Rightarrow> jsnum \<Rightarrow> nat list \<Rightarrow> jsnum \<Rightarrow> FIREYear list" where
  "fire_loop currentAgeNum monthlyExpensesNum inflationRateNum preReturnRate monthlySavings []
     corpus = []"
| "fire_loop currentAgeNum monthlyExpensesNum inflationRateNum preReturnRate monthlySavings
     (year # rest) corpus =
     (let age = currentAgeNum + Fin (real year);
          expenses' = monthlyExpensesNum * Fin 12
                        * Math_pow (Fin 1 + inflationRateNum) (Fin (real year));
          investmentReturns = corpus * preReturnRate;
          yearlySavings = monthlySavings * Fin 12;
          corpus' = corpus + investmentReturns + yearlySavings
      in \<lparr> fire_year = year,
           fire_age = age,
           savings = yearlySavings,
           fire_investmentReturns = investmentReturns,
           totalCorpus = corpus',
           yearlyExpenses = expenses' \<rparr>
         # fire_loop currentAgeNum monthlyExpensesNum inflationRateNum preReturnRate
             monthlySavings rest corpus')"

text \<open>
  \<open>calculateFIRE\<close>: the stored \<open>results\<close>. \<open>None\<close> when validation fails, and when the
  projections are empty, where \<open>projections[projections.length - 1].totalCorpus\<close> throws.
  The insights are left out.
\<close>

definition calculateFIRE ::
  "field \<Rightarrow> field \<Rightarrow> field \<Rightarrow> field \<Rightarrow> field \<Rightarrow> field \<Rightarrow> field \<Rightarrow> field \<Rightarrow> field \<Rightarrow>
   FIREResults option" where
  "calculateFIRE currentAge currentSavings monthlyIncome monthlyExpenses savingsRate
     preRetirementReturn postRetirementReturn targetRetirementAge inflationRate =
     (if fire_errors currentAge currentSavings monthlyIncome monthlyExpenses savingsRate
           preRetirementReturn postRetirementReturn targetRetirementAge inflationRate \<noteq> []
      then None
      else
        let currentAgeNum = parseInt currentAge;
            targetAgeNum = parseInt targetRetirementAge;
            yearsToRetirement = targetAgeNum - currentAgeNum;
            currentSavingsNum = parseFloat currentSavings;
            monthlyIncomeNum = parseFloat monthlyIncome;
            monthlyExpensesNum = parseFloat monthlyExpenses;
            preReturnRate = parseFloat preRetirementReturn / Fin 100;
            inflationRateNum = parseFloat inflationRate / Fin 100;
            monthlySavings = monthlyIncomeNum * (parseFloat savingsRate / Fin 100)
        in case for_range 0 yearsToRetirement of
             None \<Rightarrow> None
           | Some ys \<Rightarrow>
               let rows = fire_loop currentAgeNum monthlyExpensesNum inflationRateNum
                            preReturnRate monthlySavings ys currentSavingsNum;
                   finalYearlyExpense = monthlyExpensesNum * Fin 12
                     * Math_pow (Fin 1 + inflationRateNum) yearsToRetirement
               in if rows = [] then None
                  else Some \<lparr> targetAmount = finalYearlyExpense * Fin 25,
                              yearsToFIRE = yearsToRetirement,
                              fire_monthlyInvestmentRequired = monthlySavings,
                              projections = rows \<rparr>)"

section \<open>First-Crore calculator\<close>

record FirstCroreYear =
  fc_year :: nat
  fc_investedAmount :: jsnum
  fc_projectedValue :: jsnum
  yearlyReturns :: jsnum

record FirstCroreResults =
  yearsToTarget :: jsnum
  fc_monthlyInvestmentRequired :: jsnum
  totalInvestment :: jsnum
  totalReturns :: jsnum
  yearlyProjections :: "FirstCroreYear list"

text \<open>\<open>validateInputs\<close> of the First-Crore calculator, as the names of the fields in
  error; \<open>riskProfile\<close> is the string of a select box.\<close>

definition fc_errors :: "field \<Rightarrow> field \<Rightarrow> field \<Rightarrow> string \<Rightarrow> field \<Rightarrow> string list" where
  "fc_errors currentSavings monthlyInvestment expectedReturn riskProfile targetTimeframe =
     (if currentSavings = None then [''currentSavings''] else []) @
     (if monthlyInvestment = None then [''monthlyInvestment''] else []) @
     (if expectedReturn = None then [''expectedReturn'']
      else if parseFloat expectedReturn < Fin 1 \<or> Fin 30 < parseFloat expectedReturn
        then [''expectedReturn''] else []) @
     (if riskProfile = [] then [''riskProfile''] else []) @
     (if targetTimeframe = None then [''targetTimeframe'']
      else if parseInt targetTimeframe < Fin 1 \<or> Fin 40 < parseInt targetTimeframe
        then [''targetTimeframe''] else [])"

text \<open>
  The yearly loop of \<open>calculatePath\<close>. \<open>prior\<close> is the state \<open>results\<close> as the handler's
  closure sees it; it does not change while the handler runs. The loop state is \<open>yearlyData\<close>
  (the rows pushed so far), \<open>currentAmount\<close>, \<open>totalInvested\<close> and the value last given to
  \<open>setResults\<close>. An entry stored inside the loop shares the array \<open>yearlyData\<close>; it is
  modelled with the rows pushed so far.
\<close>

fun fc_loop ::
  "FirstCroreResults option \<Rightarrow> jsnum \<Rightarrow> jsnum \<Rightarrow> nat list \<Rightarrow>
   FirstCroreYear list \<times> jsnum \<times> jsnum \<times> FirstCroreResults option \<Rightarrow>
   FirstCroreYear list \<times> jsnum \<times> jsnum \<times> FirstCroreResults option" where
  "fc_loop prior monthly rate [] st = st"
| "fc_loop prior monthly rate (year # rest) (yearlyData, currentAmount, totalInvested, stored) =
     (let yearlyInvestment = monthly * Fin 12;
          totalInvested' = totalInvested + yearlyInvestment;
          returns' = (currentAmount + yearlyInvestment / Fin 2) * rate;
          currentAmount' = currentAmount + yearlyInvestment + returns';
          yearlyData' = yearlyData @
            [\<lparr> fc_year = year,
               fc_investedAmount = totalInvested',
               fc_projectedValue = currentAmount',
               yearlyReturns = returns' \<rparr>];
          stored' =
            (if Fin 10000000 \<le> currentAmount' \<and> prior = None
             then Some \<lparr> yearsToTarget = Fin (real year),
                         fc_monthlyInvestmentRequired = monthly,
                         totalInvestment = totalInvested',
                         totalReturns = currentAmount' - totalInvested',
                         yearlyProjections = yearlyData' \<rparr>
             else stored)
      in fc_loop prior monthly rate rest (yearlyData', currentAmount', totalInvested', stored'))"

text \<open>
  \<open>calculatePath\<close> as a step on the state \<open>results\<close>: the value of \<open>results\<close> after the
  handler, given its value \<open>prior\<close> before. When validation fails the state is unchanged.
  The insights are left out.
\<close>

definition calculatePath ::
  "field \<Rightarrow> field \<Rightarrow> field \<Rightarrow> string \<Rightarrow> field \<Rightarrow> FirstCroreResults option \<Rightarrow>
   FirstCroreResults option" where
  "calculatePath currentSavings monthlyInvestment expectedReturn riskProfile targetTimeframe prior =
     (if fc_errors currentSavings monthlyInvestment expectedReturn riskProfile targetTimeframe
           \<noteq> [] then prior
      else
        let initial = js_or (parseFloat currentSavings) (Fin 0);
            monthly = parseFloat monthlyInvestment;
            rate = parseFloat expectedReturn / Fin 100;
            years = parseInt targetTimeframe
        in case for_range 1 years of
             None \<Rightarrow> prior
           | Some ys \<Rightarrow>
               let (yearlyData, currentAmount, totalInvested, stored) =
                     fc_loop prior monthly rate ys ([], initial, initial, prior)
               in Some \<lparr> yearsToTarget = years,
                          fc_monthlyInvestmentRequired = monthly,
                          totalInvestment = totalInvested,
                          totalReturns = currentAmount - totalInvested,
                          yearlyProjections = yearlyData \<rparr>)"

section \<open>Equity-returns calculator\<close>

record EquityYear =
  eq_year :: nat
  eq_investmentValue :: jsnum
  dividendValue :: jsnum

text \<open>The optional \<open>sectorAllocation\<close> of the source's \<open>EquityResults\<close>, parsed from a JSON
  text field, is left out: the sector field is taken to be empty.\<close>

record EquityResults =
  absoluteReturn :: jsnum
  annualizedReturn :: jsnum
  inflationAdjustedReturn :: jsnum
  dividendYield :: jsnum
  totalValue :: jsnum
  eq_yearlyData :: "EquityYear list"

text \<open>\<open>validateInputs\<close> of the equity-returns calculator. The investment date is the
  string of a date input: empty (\<open>None\<close>) or a date, given by its \<open>getTime()\<close> in
  milliseconds.\<close>

definition eq_errors :: "field \<Rightarrow> real option \<Rightarrow> field \<Rightarrow> field \<Rightarrow> string list" where
  "eq_errors initialInvestment investmentDate currentValue inflationRate =
     (if initialInvestment = None then [''initialInvestment''] else []) @
     (if investmentDate = None then [''investmentDate''] else []) @
     (if currentValue = None then [''currentValue''] else []) @
     (if inflationRate = None then [''inflationRate'']
      else if parseFloat inflationRate < Fin 0 \<or> Fin 30 < parseFloat inflationRate
        then [''inflationRate''] else [])"

text \<open>\<open>new Date(investmentDate).getTime()\<close>; the empty string gives an invalid date,
  whose time is \<open>NaN\<close>.\<close>

definition getTime :: "real option \<Rightarrow> jsnum" where
  "getTime d = (case d of None \<Rightarrow> NaN | Some t \<Rightarrow> Fin t)"

text \<open>The loop of \<open>calculateReturns\<close> that fills \<open>yearlyData\<close>.\<close>

fun eq_loop :: "jsnum \<Rightarrow> jsnum \<Rightarrow> nat list \<Rightarrow> jsnum \<Rightarrow> EquityYear list" where
  "eq_loop yearlyGrowthRate yearlyDividend [] yearlyValue = []"
| "eq_loop yearlyGrowthRate yearlyDividend (year # rest) yearlyValue =
     \<lparr> eq_year = year,
       eq_investmentValue = yearlyValue,
       dividendValue = yearlyDividend * Fin (real year) \<rparr>
     # eq_loop yearlyGrowthRate yearlyDividend rest (yearlyValue * (Fin 1 + yearlyGrowthRate))"

text \<open>
  \<open>calculateReturns\<close>: the stored \<open>results\<close>, \<open>None\<close> when validation fails. The last
  argument \<open>now\<close> is \<open>new Date().getTime()\<close>, the clock read by the function. The insights
  are left out.
\<close>

definition calculateReturns ::
  "field \<Rightarrow> real option \<Rightarrow> field \<Rightarrow> field \<Rightarrow> field \<Rightarrow> real \<Rightarrow> EquityResults option" where
  "calculateReturns initialInvestment investmentDate currentValue totalDividends inflationRate now =
     (if eq_errors initialInvestment investmentDate currentValue inflationRate \<noteq> [] then None
      else
        let initial = parseFloat initialInvestment;
            current = parseFloat currentValue;
            dividends = js_or (parseFloat totalDividends) (Fin 0);
            inflation = parseFloat inflationRate / Fin 100;
            startDate = getTime investmentDate;
            years = (Fin now - startDate) / Fin (365.25 * 24 * 60 * 60 * 1000);
            absoluteReturn' = ((current - initial + dividends) / initial) * Fin 100;
            annualizedReturn' =
              (Math_pow ((current + dividends) / initial) (Fin 1 / years) - Fin 1) * Fin 100;
            inflationAdjustedReturn' = annualizedReturn' - inflation;
            dividendYield' = (dividends / initial) * Fin 100 / years;
            yearlyGrowthRate = Math_pow (current / initial) (Fin 1 / years) - Fin 1;
            yearlyDividend = dividends / years
        in case for_range 0 (Math_ceil years) of
             None \<Rightarrow> None
           | Some ys \<Rightarrow>
               Some \<lparr> absoluteReturn = absoluteReturn',
                      annualizedReturn = annualizedReturn',
                      inflationAdjustedReturn = inflationAdjustedReturn',
                      dividendYield = dividendYield',
                      totalValue = current + dividends,
                      eq_yearlyData = eq_loop yearlyGrowthRate yearlyDividend ys initial \<rparr>)"

section \<open>The yearly reinvestment recurrence of the specification\<close>

text \<open>
  The recurrence in the specification's words, \<open>amount = amount*(1+r) + yearlyContribution\<close>:
  every amount of the series is the amount before it (the starting amount for the first)
  times \<open>1 + r\<close>, plus the yearly contribution.
\<close>

definition spec_recurrence :: "jsnum list \<Rightarrow> jsnum \<Rightarrow> real \<Rightarrow> real \<Rightarrow> bool" where
  "spec_recurrence amounts start r yearlyContribution =
     (\<forall>k < length amounts.
        amounts ! k = (if k = 0 then start else amounts ! (k - 1)) * Fin (1 + r)
                        + Fin yearlyContribution)"

section \<open>Arithmetic on finite numbers\<close>

lemma Fin_minus [simp]: "Fin a - Fin b = Fin (a - b)"
  by (simp add: minus_jsnum_def)

text \<open>On a positive base \<open>Math.pow\<close> is the real power, whatever the exponent.\<close>

lemma pow_fin_pos: "0 < x \<Longrightarrow> pow_fin x y = Fin (x powr y)"
proof -
  assume x: "0 < x"
  show ?thesis
  proof (cases "y = of_int \<lfloor>y\<rfloor>")
    case False
    with x show ?thesis by (auto simp: pow_fin_def)
  next
    case int: True
    show ?thesis
    proof (cases "0 < y")
      case True
      from int True have "y = real (nat \<lfloor>y\<rfloor>)" by linarith
      then have "x powr y = x ^ nat \<lfloor>y\<rfloor>" using x powr_realpow by metis
      with True int show ?thesis by (simp add: pow_fin_def)
    next
      case False
      show ?thesis
      proof (cases "y = 0")
        case True then show ?thesis using x by (simp add: pow_fin_def)
      next
        case ny: False
        from int False have "- y = real (nat (- \<lfloor>y\<rfloor>))" by linarith
        then have "x powr (- y) = x ^ nat (- \<lfloor>y\<rfloor>)" using x powr_realpow by metis
        then have "x powr y = 1 / x ^ nat (- \<lfloor>y\<rfloor>)" using x
          by (metis powr_minus_divide minus_minus)
        with False ny x int show ?thesis by (simp add: pow_fin_def)
      qed
    qed
  qed
qed

section \<open>Binary64 rounding\<close>

text \<open>Rounding to the nearest integer.\<close>

lemma round_even_int [simp]: "round_even (of_int z) = z"
  by (simp add: round_even_def)

lemma round_even_near:
  assumes "\<bar>r - of_int k\<bar> < 1 / 2"
  shows "round_even r = k"
proof (cases "of_int k \<le> r")
  case True
  with assms have "\<lfloor>r\<rfloor> = k" by (simp add: floor_eq_iff)
  with assms True show ?thesis by (simp add: round_even_def Let_def)
next
  case False
  with assms have f: "\<lfloor>r\<rfloor> = k - 1" by (simp add: floor_eq_iff)
  have "1 / 2 < r - of_int (k - 1)" using assms False by simp
  with f show ?thesis by (simp add: round_even_def Let_def)
qed

lemma round_even_ge:
  assumes "of_int z \<le> r"
  shows "z \<le> round_even r"
proof -
  from assms have "z \<le> \<lfloor>r\<rfloor>" by (simp add: le_floor_iff)
  moreover have "\<lfloor>r\<rfloor> \<le> round_even r" by (simp add: round_even_def Let_def)
  ultimately show ?thesis by linarith
qed

lemma round_even_le:
  assumes "r \<le> of_int z"
  shows "round_even r \<le> z"
proof (cases "r = of_int \<lfloor>r\<rfloor>")
  case True
  then have "round_even r = round_even (of_int \<lfloor>r\<rfloor>)" by simp
  then have "round_even r = \<lfloor>r\<rfloor>" by (simp only: round_even_int)
  moreover from assms have "\<lfloor>r\<rfloor> \<le> z" by (simp add: floor_le_iff)
  ultimately show ?thesis by simp
next
  case False
  then have "of_int \<lfloor>r\<rfloor> < r" using of_int_floor_le[of r] by linarith
  with assms have "of_int \<lfloor>r\<rfloor> < (of_int z :: real)" by linarith
  then have "\<lfloor>r\<rfloor> < z" by simp
  moreover have "round_even r \<le> \<lfloor>r\<rfloor> + 1" by (simp add: round_even_def Let_def)
  ultimately show ?thesis by linarith
qed

lemma ulp64_pos [simp]: "0 < ulp64 x"
  by (simp add: ulp64_def)

lemma exponent64_eq:
  assumes "2 powr of_int e \<le> \<bar>x\<bar>" "\<bar>x\<bar> < 2 powr (of_int e + 1)" "- 1022 \<le> e"
  shows "exponent64 x = e"
proof -
  have pos: "0 < \<bar>x\<bar>" using assms(1) by (smt (verit) powr_gt_zero)
  have "of_int e \<le> log 2 \<bar>x\<bar>" using assms(1) pos by (simp add: le_log_iff)
  moreover have "log 2 \<bar>x\<bar> < of_int e + 1" using assms(2) pos by (simp add: log_less_iff)
  ultimately have "\<lfloor>log 2 \<bar>x\<bar>\<rfloor> = e" by (simp add: floor_eq_iff)
  with assms(3) show ?thesis by (simp add: exponent64_def)
qed

lemma round64_eval:
  assumes "2 powr of_int e \<le> \<bar>x\<bar>" "\<bar>x\<bar> < 2 powr (of_int e + 1)" "- 1022 \<le> e"
    and "\<bar>x / 2 powr of_int (e - 52) - of_int k\<bar> < 1 / 2"
  shows "round64 x = of_int k * 2 powr of_int (e - 52)"
proof -
  have e: "exponent64 x = e" by (rule exponent64_eq[OF assms(1-3)])
  have "x \<noteq> 0" using assms(1) by (smt (verit) powr_gt_zero)
  then show ?thesis
    using round_even_near[OF assms(4)] by (simp add: round64_def ulp64_def e)
qed

lemma two_powr_int: "(2::real) powr of_int (int n) = 2 ^ n"
  by (simp add: powr_realpow)

lemma two_powr_neg_int: "(2::real) powr of_int (- int n) = 1 / 2 ^ n"
proof -
  have "(2::real) powr of_int (- int n) = 2 powr (- real n)" by simp
  also have "\<dots> = inverse (2 powr real n)" by (rule powr_minus)
  also have "\<dots> = 1 / 2 ^ n" by (simp add: powr_realpow inverse_eq_divide)
  finally show ?thesis .
qed

lemma round64_evalP:
  assumes "2 ^ n \<le> \<bar>x\<bar>" "\<bar>x\<bar> < 2 * 2 ^ n" "n \<le> 52"
    and "\<bar>x * 2 ^ (52 - n) - of_int k\<bar> < 1 / 2"
  shows "round64 x = of_int k / 2 ^ (52 - n)"
proof -
  have b: "(2::real) powr (of_int (int n) + 1) = 2 * 2 ^ n"
    by (simp add: powr_add powr_realpow)
  have "int n - 52 = - int (52 - n)" using assms(3) by simp
  then have "(2::real) powr of_int (int n - 52) = 2 powr of_int (- int (52 - n))"
    by (simp only:)
  then have c: "(2::real) powr of_int (int n - 52) = 1 / 2 ^ (52 - n)"
    by (simp only: two_powr_neg_int)
  have "round64 x = of_int k * 2 powr of_int (int n - 52)"
  proof (rule round64_eval)
    show "2 powr of_int (int n) \<le> \<bar>x\<bar>" unfolding two_powr_int by (rule assms(1))
    show "\<bar>x\<bar> < 2 powr (of_int (int n) + 1)" unfolding b by (rule assms(2))
    show "- 1022 \<le> int n" by simp
    show "\<bar>x / 2 powr of_int (int n - 52) - of_int k\<bar> < 1 / 2"
      unfolding c using assms(4) by simp
  qed
  then show ?thesis unfolding c by simp
qed

lemma round64_evalN:
  assumes "1 / 2 ^ n \<le> \<bar>x\<bar>" "\<bar>x\<bar> < 2 / 2 ^ n" "n \<le> 1022"
    and "\<bar>x * 2 ^ (52 + n) - of_int k\<bar> < 1 / 2"
  shows "round64 x = of_int k / 2 ^ (52 + n)"
proof -
  have "(2::real) powr (of_int (- int n) + 1) = 2 powr of_int (- int n) * 2 powr 1"
    by (rule powr_add)
  then have b: "(2::real) powr (of_int (- int n) + 1) = 2 / 2 ^ n"
    unfolding two_powr_neg_int by simp
  have "- int n - 52 = - int (52 + n)" by simp
  then have "(2::real) powr of_int (- int n - 52) = 2 powr of_int (- int (52 + n))"
    by (simp only:)
  then have c: "(2::real) powr of_int (- int n - 52) = 1 / 2 ^ (52 + n)"
    by (simp only: two_powr_neg_int)
  have "round64 x = of_int k * 2 powr of_int (- int n - 52)"
  proof (rule round64_eval)
    show "2 powr of_int (- int n) \<le> \<bar>x\<bar>" unfolding two_powr_neg_int by (rule assms(1))
    show "\<bar>x\<bar> < 2 powr (of_int (- int n) + 1)" unfolding b by (rule assms(2))
    show "- 1022 \<le> - int n" using assms(3) by simp
    show "\<bar>x / 2 powr of_int (- int n - 52) - of_int k\<bar> < 1 / 2"
      unfolding c using assms(4) by simp
  qed
  then show ?thesis unfolding c by simp
qed

text \<open>Numbers with a 53-bit numerator over a power of two are not changed.\<close>

lemma round64_dyadic:
  assumes "\<bar>m\<bar> < 2 ^ 53" "k \<le> 1074"
  shows "round64 (of_int m / 2 ^ k) = of_int m / 2 ^ k"
proof (cases "m = 0")
  case True
  then show ?thesis by (simp add: round64_def)
next
  case False
  define x :: real where "x = of_int m / 2 ^ k"
  have x0: "x \<noteq> 0" using False by (simp add: x_def)
  then have pos: "0 < \<bar>x\<bar>" by simp
  define E where "E = exponent64 x"
  have "\<bar>x\<bar> = \<bar>of_int m\<bar> / 2 ^ k" by (simp add: x_def abs_divide)
  also have "\<dots> < 2 ^ 53 / 2 ^ k"
  proof -
    have "(of_int \<bar>m\<bar> :: real) < of_int (2 ^ 53)" using assms(1) by (simp only: of_int_less_iff)
    then have "\<bar>of_int m :: real\<bar> < 2 ^ 53" by simp
    then show ?thesis by (simp add: divide_strict_right_mono)
  qed
  also have "\<dots> = 2 powr (53 - real k)"
    by (simp add: powr_diff powr_realpow[symmetric])
  finally have "log 2 \<bar>x\<bar> < 53 - real k" using pos by (simp add: log_less_iff)
  then have "\<lfloor>log 2 \<bar>x\<bar>\<rfloor> < 53 - int k"
    by (simp add: floor_less_iff)
  then have El: "E \<le> 52 - int k" using assms(2) by (simp add: E_def exponent64_def)
  define j where "j = nat (52 - int k - E)"
  have j: "int j = 52 - int k - E" using El by (simp add: j_def)
  have u: "ulp64 x = 2 powr of_int (E - 52)" by (simp add: ulp64_def E_def)
  have "E - 52 = - int k - int j" using j by simp
  then have u2: "ulp64 x = 1 / (2 ^ k * 2 ^ j)"
    unfolding u by (simp add: powr_diff powr_minus powr_realpow divide_inverse)
  have "x / ulp64 x = x * (2 ^ k * 2 ^ j)" by (simp add: u2)
  also have "\<dots> = of_int (m * 2 ^ j)" by (simp add: x_def)
  finally have q: "x / ulp64 x = of_int (m * 2 ^ j)" .
  have "round64 x = of_int (m * 2 ^ j) * ulp64 x"
    using x0 unfolding round64_def q round_even_int by simp
  also have "\<dots> = x" unfolding u2 by (simp add: x_def)
  finally show ?thesis by (simp add: x_def)
qed

lemma round64_int:
  assumes "\<bar>m\<bar> < 2 ^ 53"
  shows "round64 (of_int m) = of_int m"
  using round64_dyadic[OF assms, of 0] by simp

lemma round64_numeral [simp]:
  "numeral w < (2::int) ^ 53 \<Longrightarrow> round64 (numeral w) = numeral w"
  using round64_int[of "numeral w"] by simp

lemma round64_0 [simp]: "round64 0 = 0"
  by (simp add: round64_def)

lemma round64_1 [simp]: "round64 1 = 1"
  using round64_int[of 1] by simp

lemma round64_nonneg:
  assumes "0 \<le> x"
  shows "0 \<le> round64 x"
proof -
  have "of_int 0 \<le> x / ulp64 x" using assms ulp64_pos[of x] by (simp add: divide_nonneg_pos)
  then have "0 \<le> round_even (x / ulp64 x)" by (rule round_even_ge)
  then have "(0::real) \<le> of_int (round_even (x / ulp64 x))" by simp
  from mult_nonneg_nonneg[OF this less_imp_le[OF ulp64_pos[of x]]]
  show ?thesis by (simp add: round64_def)
qed

lemma round64_nonpos:
  assumes "x \<le> 0"
  shows "round64 x \<le> 0"
proof -
  have "x / ulp64 x \<le> of_int 0" using assms by (simp add: divide_nonpos_pos)
  then have "round_even (x / ulp64 x) \<le> 0" by (rule round_even_le)
  then have "of_int (round_even (x / ulp64 x)) \<le> (0::real)" by simp
  from mult_nonpos_nonneg[OF this less_imp_le[OF ulp64_pos[of x]]]
  show ?thesis by (simp add: round64_def)
qed

lemma round64_lower:
  assumes "2 powr of_int a \<le> x" "- 1022 \<le> a"
  shows "2 powr of_int a \<le> round64 x"
proof -
  have pos: "0 < x" using assms(1) by (smt (verit) powr_gt_zero)
  define L where "L = \<lfloor>log 2 \<bar>x\<bar>\<rfloor>"
  have "of_int a \<le> log 2 x" using assms(1) pos by (simp add: le_log_iff)
  then have aL: "a \<le> L" using pos by (simp add: L_def le_floor_iff)
  then have E: "exponent64 x = L" using assms(2) by (simp add: exponent64_def L_def)
  have "of_int L \<le> log 2 x" using pos by (simp add: L_def)
  then have Lx: "2 powr of_int L \<le> x" using pos by (simp add: le_log_iff)
  have u: "ulp64 x = 2 powr of_int (L - 52)" by (simp add: ulp64_def E)
  have "2 powr of_int L / ulp64 x \<le> x / ulp64 x"
    by (rule divide_right_mono[OF Lx less_imp_le[OF ulp64_pos]])
  moreover have "2 powr of_int L / ulp64 x = of_int (2 ^ 52)"
    unfolding u by (simp add: powr_diff)
  ultimately have "of_int (2 ^ 52) \<le> x / ulp64 x" by simp
  then have "2 ^ 52 \<le> round_even (x / ulp64 x)" by (rule round_even_ge)
  then have "(of_int (2 ^ 52) :: real) \<le> of_int (round_even (x / ulp64 x))"
    by (simp only: of_int_le_iff)
  then have "of_int (2 ^ 52) * ulp64 x \<le> of_int (round_even (x / ulp64 x)) * ulp64 x"
    by (rule mult_right_mono) (rule less_imp_le[OF ulp64_pos])
  moreover have "of_int (2 ^ 52) * ulp64 x = 2 powr of_int L"
    unfolding u by (simp add: powr_diff)
  moreover have "2 powr of_int a \<le> (2::real) powr of_int L" using aL by simp
  moreover have "round64 x = of_int (round_even (x / ulp64 x)) * ulp64 x"
    using pos by (simp add: round64_def)
  ultimately show ?thesis by linarith
qed

lemma round64_upper:
  assumes "0 < x" "x \<le> 2 powr of_int a" "- 1022 \<le> a"
  shows "round64 x \<le> 2 powr of_int a"
proof -
  define E where "E = exponent64 x"
  have "log 2 x \<le> of_int a" using assms(1,2) by (simp add: log_le_iff)
  then have "\<lfloor>log 2 \<bar>x\<bar>\<rfloor> \<le> a" using assms(1) by (simp add: floor_le_iff)
  then have Ea: "E \<le> a" using assms(3) by (simp add: E_def exponent64_def)
  define j where "j = nat (a - E + 52)"
  have j: "int j = a - E + 52" using Ea by (simp add: j_def)
  have u: "ulp64 x = 2 powr of_int (E - 52)" by (simp add: ulp64_def E_def)
  have "a = (E - 52) + int j" using j by simp
  then have pa: "(2::real) powr of_int a = 2 powr of_int (E - 52) * 2 ^ j"
    by (simp only: of_int_add powr_add of_int_of_nat_eq powr_realpow)
  have "x / ulp64 x \<le> 2 powr of_int a / ulp64 x"
    by (rule divide_right_mono[OF assms(2) less_imp_le[OF ulp64_pos]])
  moreover have "2 powr of_int a / ulp64 x = of_int (2 ^ j)"
    unfolding u pa by simp
  ultimately have "x / ulp64 x \<le> of_int (2 ^ j)" by simp
  then have "round_even (x / ulp64 x) \<le> 2 ^ j" by (rule round_even_le)
  then have "of_int (round_even (x / ulp64 x)) \<le> (of_int (2 ^ j) :: real)"
    by (simp only: of_int_le_iff)
  then have "of_int (round_even (x / ulp64 x)) * ulp64 x \<le> of_int (2 ^ j) * ulp64 x"
    by (rule mult_right_mono) (rule less_imp_le[OF ulp64_pos])
  moreover have "of_int (2 ^ j) * ulp64 x = 2 powr of_int a"
    unfolding u pa by simp
  moreover have "round64 x = of_int (round_even (x / ulp64 x)) * ulp64 x"
    using assms(1) by (simp add: round64_def)
  ultimately show ?thesis by linarith
qed

lemma round64_lower_inv:
  assumes "1 / 2 ^ k \<le> x" "k \<le> 1022"
  shows "1 / 2 ^ k \<le> round64 x"
proof -
  note a = two_powr_neg_int[of k]
  show ?thesis using round64_lower[of "- int k" x] assms unfolding a by simp
qed

lemma round64_upper_inv:
  assumes "0 < x" "x \<le> 1 / 2 ^ k" "k \<le> 1022"
  shows "round64 x \<le> 1 / 2 ^ k"
proof -
  note a = two_powr_neg_int[of k]
  show ?thesis using round64_upper[of x "- int k"] assms unfolding a by simp
qed

lemma round64_lower_pow:
  assumes "2 ^ k \<le> x"
  shows "2 ^ k \<le> round64 x"
proof -
  note a = two_powr_int[of k]
  show ?thesis using round64_lower[of "int k" x] assms unfolding a by simp
qed

lemma round64_upper_pow:
  assumes "0 < x" "x \<le> 2 ^ k"
  shows "round64 x \<le> 2 ^ k"
proof -
  note a = two_powr_int[of k]
  show ?thesis using round64_upper[of x "int k"] assms unfolding a by simp
qed

lemma round64_one_plus:
  assumes "0 \<le> d" "d < 1 / 2 ^ 54"
  shows "round64 (1 + d) = 1"
proof -
  have "round64 (1 + d) = of_int (2 ^ 52) / 2 ^ (52 - 0)"
    by (rule round64_evalP) (use assms in \<open>simp_all add: algebra_simps\<close>)
  then show ?thesis by simp
qed

text \<open>The rounding on \<open>jsnum\<close>. The defining equation of \<open>fl\<close> on a finite number is
  used through the lemmas below.\<close>

declare fl.simps(1) [simp del]

lemma fl_Fin_eq:
  assumes "round64 x = y" "\<bar>y\<bar> < 2 ^ 1024"
  shows "fl (Fin x) = Fin y"
proof -
  define B :: real where "B = 2 ^ 1024"
  have f: "fl (Fin x) =
      (if B \<le> round64 x then PInf else if round64 x \<le> - B then NInf else Fin (round64 x))"
    unfolding B_def by (rule fl.simps(1))
  from assms(2) have "\<bar>y\<bar> < B" unfolding B_def .
  then have "\<not> B \<le> y" "\<not> y \<le> - B" by linarith+
  then show ?thesis unfolding f assms(1) by simp
qed

lemma fl_dyadic:
  assumes "\<bar>m\<bar> < 2 ^ 53" "k \<le> 1074"
  shows "fl (Fin (of_int m / 2 ^ k)) = Fin (of_int m / 2 ^ k)"
proof -
  have "(of_int \<bar>m\<bar> :: real) < of_int (2 ^ 53)" using assms(1) by (simp only: of_int_less_iff)
  then have m: "\<bar>of_int m :: real\<bar> < 2 ^ 53" by simp
  have "\<bar>of_int m / 2 ^ k :: real\<bar> = \<bar>of_int m\<bar> / 2 ^ k" by (simp add: abs_divide)
  also have "\<dots> \<le> \<bar>of_int m\<bar>"
    using mult_left_mono[of 1 "2 ^ k" "\<bar>of_int m :: real\<bar>"] by (simp add: divide_le_eq)
  finally have "\<bar>of_int m / 2 ^ k :: real\<bar> < 2 ^ 53" using m by linarith
  moreover have "(2::real) ^ 53 < 2 ^ 1024" by (rule power_strict_increasing) simp_all
  ultimately have "\<bar>of_int m / 2 ^ k :: real\<bar> < 2 ^ 1024" by (rule less_trans)
  with round64_dyadic[OF assms] show ?thesis by (rule fl_Fin_eq)
qed

lemma fl_int:
  assumes "\<bar>m\<bar> < 2 ^ 53"
  shows "fl (Fin (of_int m)) = Fin (of_int m)"
  using fl_dyadic[OF assms, of 0] by simp

lemma fl_numeral [simp]:
  "numeral w < (2::int) ^ 53 \<Longrightarrow> fl (Fin (numeral w)) = Fin (numeral w)"
  using fl_int[of "numeral w"] by simp

lemma fl_neg_numeral [simp]:
  "numeral w < (2::int) ^ 53 \<Longrightarrow> fl (Fin (- numeral w)) = Fin (- numeral w)"
  using fl_int[of "- numeral w"] by simp

lemma fl_0 [simp]: "fl (Fin 0) = Fin 0"
  using fl_int[of 0] by simp

lemma fl_1 [simp]: "fl (Fin 1) = Fin 1"
  using fl_int[of 1] by simp

lemma fl_nat:
  assumes "n < 2 ^ 53"
  shows "fl (Fin (real n)) = Fin (real n)"
proof -
  have "int n < 2 ^ 53" using assms by (metis of_nat_less_iff of_nat_numeral of_nat_power)
  then show ?thesis using fl_int[of "int n"] by simp
qed

section \<open>EMI: a positive rate that vanishes in \<open>1 + rate\<close>\<close>

text \<open>
  The interest rate \<open>0.0000000000001\<close> (percent a year). The monthly rate
  \<open>parseFloat(interestRate) / 12 / 100\<close> is a positive number below \<open>2^-53\<close>, so
  \<open>1 + rate\<close> is rounded to 1, while \<open>principal * rate\<close> is positive.
\<close>

lemma emi_tiny_rate:
  "fl (fl (parseFloat64 (Some (1 / 10 ^ 13)) / Fin 12) / Fin 100)
     = Fin (6760803201217224 / 2 ^ 106)"
proof -
  have a: "parseFloat64 (Some (1 / 10 ^ 13)) = Fin (7922816251426434 / 2 ^ 96)"
    using fl_Fin_eq[OF round64_evalN[of 44 "1 / 10 ^ 13" 7922816251426434]]
    by (simp add: parseFloat64_def parseFloat_def)
  have b: "fl (Fin (7922816251426434 / 2 ^ 96) / Fin 12) = Fin (5281877500950956 / 2 ^ 99)"
    using fl_Fin_eq[OF round64_evalN[of 47 "7922816251426434 / 2 ^ 96 / 12" 5281877500950956]]
    by simp
  have c: "fl (Fin (5281877500950956 / 2 ^ 99) / Fin 100) = Fin (6760803201217224 / 2 ^ 106)"
    using fl_Fin_eq[OF round64_evalN[of 54 "5281877500950956 / 2 ^ 99 / 100" 6760803201217224]]
    by simp
  show ?thesis unfolding a b c ..
qed

lemma emi_tiny_rate_one: "fl (Fin 1 + Fin (6760803201217224 / 2 ^ 106)) = Fin 1"
  using fl_Fin_eq[OF round64_evalP[of 0 "1 + 6760803201217224 / 2 ^ 106" "2 ^ 52"]]
  by simp

lemma emi_tiny_rate_interest:
  "fl (Fin 100000 * Fin (6760803201217224 / 2 ^ 106)) = Fin (5158083497022418 / 2 ^ 89)"
  using fl_Fin_eq[OF round64_evalN[of 37 "100000 * (6760803201217224 / 2 ^ 106)" 5158083497022418]]
  by simp

lemma emi_tiny_rate_interest_exact:
  "fl (Fin (5158083497022418 / 2 ^ 89)) = Fin (5158083497022418 / 2 ^ 89)"
  using fl_dyadic[of 5158083497022418 89] by simp

lemma map_option_Some_not_None: "map_option f x = Some y \<Longrightarrow> x \<noteq> None"
  by auto

lemma emi_tiny_rate_payment:
  "fl (Fin (5158083497022418 / 2 ^ 89) * Fin 1) = Fin (5158083497022418 / 2 ^ 89)"
  using fl_dyadic[of 5158083497022418 89] by simp

lemma emi_pow_one: "Math_pow64 (Fin 1) (Fin (numeral w)) = Fin 1"
  by (simp add: Math_pow64_def pow_fin_def)

text \<open>
  Claim C1 asks that a computation with positive principal, rate and term stores the value of
  the payment formula and never divides by zero. \<open>calculateResults\<close> guards the rate
  with \<open>!rate\<close>, but not the denominator: for the loan amount 100000, the interest rate
  \<open>0.0000000000001\<close> and the term 10, the rate is positive, \<open>Math.pow(1 + rate, time)\<close>
  is 1, the denominator is 0 and the stored payment, total amount and total interest are
  infinite.
\<close>

theorem emi_tiny_rate_divides_by_zero:
  "map_option emi (calculateResults (Some 100000) (Some (1 / 10 ^ 13)) (Some 10)) = Some PInf \<and>
   map_option totalAmount (calculateResults (Some 100000) (Some (1 / 10 ^ 13)) (Some 10))
     = Some PInf \<and>
   map_option totalInterest (calculateResults (Some 100000) (Some (1 / 10 ^ 13)) (Some 10))
     = Some PInf"
proof -
  have P: "parseFloat64 (Some 100000) = Fin 100000"
    by (simp add: parseFloat64_def parseFloat_def)
  have T: "fl (parseFloat64 (Some 10) * Fin 12) = Fin 120"
    by (simp add: parseFloat64_def parseFloat_def)
  show ?thesis
    unfolding calculateResults_def Let_def P T emi_tiny_rate emi_tiny_rate_one
      emi_tiny_rate_interest emi_pow_one emi_tiny_rate_payment
    by (simp add: minus_jsnum_def)
qed

theorem emi_tiny_rate_divides_by_zero_witness:
  "calculateResults (Some 100000) (Some (1 / 10 ^ 13)) (Some 10) \<noteq> None \<and>
   map_option emi (calculateResults (Some 100000) (Some (1 / 10 ^ 13)) (Some 10)) = Some PInf"
proof -
  note t = emi_tiny_rate_divides_by_zero[THEN conjunct1]
  from map_option_Some_not_None[OF t] t show ?thesis by (rule conjI)
qed

text \<open>
  Claim C7 asks that the remaining balance of every schedule from a positive principal, rate
  and term is never negative and never increases, and that the principal paid at the last
  row is the principal. With the interest rate \<open>0.0000000000001\<close> the payment is
  infinite (the division by zero of claim C1), \<open>yearlyEMI - interestForYear\<close> is
  \<open>Infinity - Infinity\<close>, and the only row of the schedule for the loan amount 100000 and
  the term 0.25 has \<open>NaN\<close> as remaining balance, principal paid and interest paid.
\<close>

theorem emi_tiny_rate_schedule_not_a_number:
  "map_option (map remainingBalance \<circ> emi_yearlyData)
     (calculateResults (Some 100000) (Some (1 / 10 ^ 13)) (Some (1 / 4))) = Some [NaN] \<and>
   map_option (map principalPaid \<circ> emi_yearlyData)
     (calculateResults (Some 100000) (Some (1 / 10 ^ 13)) (Some (1 / 4))) = Some [NaN] \<and>
   map_option (map interestPaid \<circ> emi_yearlyData)
     (calculateResults (Some 100000) (Some (1 / 10 ^ 13)) (Some (1 / 4))) = Some [NaN] \<and>
   map_option (map totalPaid \<circ> emi_yearlyData)
     (calculateResults (Some 100000) (Some (1 / 10 ^ 13)) (Some (1 / 4))) = Some [PInf]"
proof -
  have P: "parseFloat64 (Some 100000) = Fin 100000"
    by (simp add: parseFloat64_def parseFloat_def)
  have q: "fl (Fin (1 / 4)) = Fin (1 / 4)"
    using fl_dyadic[of 1 2] by simp
  have T: "fl (parseFloat64 (Some (1 / 4)) * Fin 12) = Fin 3"
    by (simp add: parseFloat64_def parseFloat_def q)
  have c: "\<lceil>1 / 4 :: real\<rceil> = 1" unfolding ceiling_eq_iff by simp
  have ys: "[Suc 0 ..< 2] = [Suc 0]" by (simp add: upt_rec)
  show ?thesis
    unfolding calculateResults_def Let_def P T emi_tiny_rate emi_tiny_rate_one
      emi_tiny_rate_interest emi_pow_one emi_tiny_rate_payment
    by (simp add: minus_jsnum_def q c ys)
qed

theorem emi_tiny_rate_schedule_not_a_number_witness:
  "calculateResults (Some 100000) (Some (1 / 10 ^ 13)) (Some (1 / 4)) \<noteq> None \<and>
   map_option (map remainingBalance \<circ> emi_yearlyData)
     (calculateResults (Some 100000) (Some (1 / 10 ^ 13)) (Some (1 / 4))) = Some [NaN]"
proof -
  note t = emi_tiny_rate_schedule_not_a_number[THEN conjunct1]
  from map_option_Some_not_None[OF t] t show ?thesis by (rule conjI)
qed

section \<open>SIP: the future value\<close>

lemma sip_general:
  assumes "0 < R"
  shows "\<exists>rows. calculateSIP (Fin c) (Some y) (Some R) =
           Some \<lparr> futureValue = Fin (spec_future_value c (R / (12 * 100)) (y * 12)),
                  investedAmount = Fin (c * (y * 12)),
                  monthlyData = rows,
                  wealthGained = Fin (spec_future_value c (R / (12 * 100)) (y * 12) - c * (y * 12)) \<rparr>"
  using assms
  by (simp add: calculateSIP_def parseFloat_def Let_def pow_fin_pos spec_future_value_def add_pos_pos)

lemma sip_scenario_power:
  "(33003868 / 10000000 :: real) < (101 / 100) ^ 120"
  "(101 / 100 :: real) ^ 120 < 33003869 / 10000000"
  by (simp_all add: power_divide)

lemma sip_scenario_value:
  "1161695 \<le> spec_future_value 5000 (12 / (12 * 100)) (10 * 12)"
  "spec_future_value 5000 (12 / (12 * 100)) (10 * 12) < 1161696"
proof -
  define x :: real where "x = (101 / 100) ^ 120"
  have lo: "33003868 / 10000000 < x" and hi: "x < 33003869 / 10000000"
    unfolding x_def by (rule sip_scenario_power)+
  have p: "spec_future_value 5000 (12 / (12 * 100)) (10 * 12) = 505000 * (x - 1)"
    by (simp add: spec_future_value_def x_def)
  show "1161695 \<le> spec_future_value 5000 (12 / (12 * 100)) (10 * 12)"
    unfolding p using lo by argo
  show "spec_future_value 5000 (12 / (12 * 100)) (10 * 12) < 1161696"
    unfolding p using hi by argo
qed

text \<open>
  Claim C2. For a monthly investment \<open>c\<close>, \<open>y\<close> years and an expected annual return
  \<open>R > 0\<close>, the stored future value is the annuity-due closed form
  \<open>c * ((1+r)^n - 1)/r * (1+r)\<close> with \<open>r = R/(12*100)\<close> and \<open>n = y*12\<close>, and the invested
  amount is \<open>c * n\<close>. For \<open>c = 5000\<close>, \<open>y = 10\<close>, \<open>R = 12\<close> the future value lies between
  1,161,695 and 1,161,696 and the invested amount is 600,000.
\<close>

theorem sip_future_value:
  "(0 < R \<longrightarrow>
      map_option futureValue (calculateSIP (Fin c) (Some y) (Some R)) =
        Some (Fin (spec_future_value c (R / (12 * 100)) (y * 12))) \<and>
      map_option investedAmount (calculateSIP (Fin c) (Some y) (Some R)) =
        Some (Fin (c * (y * 12))))
   \<and> (\<exists>fv. map_option futureValue (calculateSIP (Fin 5000) (Some 10) (Some 12)) = Some (Fin fv) \<and>
          1161695 \<le> fv \<and> fv < 1161696)
   \<and> map_option investedAmount (calculateSIP (Fin 5000) (Some 10) (Some 12)) = Some (Fin 600000)"
proof -
  have general: "0 < R \<longrightarrow>
      map_option futureValue (calculateSIP (Fin c) (Some y) (Some R)) =
        Some (Fin (spec_future_value c (R / (12 * 100)) (y * 12))) \<and>
      map_option investedAmount (calculateSIP (Fin c) (Some y) (Some R)) =
        Some (Fin (c * (y * 12)))"
  proof
    assume "0 < R"
    from sip_general[OF this, of c y] show
      "map_option futureValue (calculateSIP (Fin c) (Some y) (Some R)) =
        Some (Fin (spec_future_value c (R / (12 * 100)) (y * 12))) \<and>
      map_option investedAmount (calculateSIP (Fin c) (Some y) (Some R)) =
        Some (Fin (c * (y * 12)))" by auto
  qed
  from sip_general[of 12 5000 10] obtain rows where
    s: "calculateSIP (Fin 5000) (Some 10) (Some 12) =
           Some \<lparr> futureValue = Fin (spec_future_value 5000 (12 / (12 * 100)) (10 * 12)),
                  investedAmount = Fin (5000 * (10 * 12)),
                  monthlyData = rows,
                  wealthGained = Fin (spec_future_value 5000 (12 / (12 * 100)) (10 * 12) - 5000 * (10 * 12)) \<rparr>"
    by auto
  have fv: "\<exists>fv. map_option futureValue (calculateSIP (Fin 5000) (Some 10) (Some 12)) = Some (Fin fv) \<and>
          1161695 \<le> fv \<and> fv < 1161696"
    unfolding s using sip_scenario_value by simp
  have inv: "map_option investedAmount (calculateSIP (Fin 5000) (Some 10) (Some 12)) = Some (Fin 600000)"
    unfolding s by simp
  show ?thesis using general fv inv by blast
qed

theorem sip_future_value_witness:
  "(0::real) < 8 \<and>
   map_option futureValue (calculateSIP (Fin 1000) (Some 2) (Some 8)) =
     Some (Fin (spec_future_value 1000 (8 / (12 * 100)) (2 * 12))) \<and>
   map_option investedAmount (calculateSIP (Fin 1000) (Some 2) (Some 8)) = Some (Fin 24000)"
  using sip_future_value[of 8 1000 2] by simp

section \<open>Capital-gains tax\<close>

text \<open>
  Claim C6. With both prices and both dates filled, the capital gain is
  \<open>salePrice - purchasePrice\<close> and the tax liability is 0.20 times the gain; no date enters
  the result, so two computations on the same prices and any filled dates agree. Purchase
  500,000 and sale 800,000 give gain 300,000 and tax 60,000.
\<close>

theorem capital_gains_flat_rate:
  "(purchaseDate \<noteq> [] \<and> saleDate \<noteq> [] \<and> purchaseDate' \<noteq> [] \<and> saleDate' \<noteq> [] \<longrightarrow>
      calculateTax (Some p) (Some s) purchaseDate saleDate =
        Some \<lparr> capitalGains = Fin (s - p), taxLiability = Fin (0.20 * (s - p)),
               purchaseAmount = Fin p, saleAmount = Fin s \<rparr> \<and>
      calculateTax (Some p) (Some s) purchaseDate' saleDate' =
        calculateTax (Some p) (Some s) purchaseDate saleDate)
   \<and> (purchaseDate \<noteq> [] \<and> saleDate \<noteq> [] \<longrightarrow>
      map_option capitalGains (calculateTax (Some 500000) (Some 800000) purchaseDate saleDate)
        = Some (Fin 300000) \<and>
      map_option taxLiability (calculateTax (Some 500000) (Some 800000) purchaseDate saleDate)
        = Some (Fin 60000))"
  by (simp add: calculateTax_def parseFloat_def Let_def)

theorem capital_gains_flat_rate_witness:
  "''2015-04-01'' \<noteq> [] \<and> ''2024-04-01'' \<noteq> [] \<and> ''2023-12-31'' \<noteq> [] \<and>
   calculateTax (Some 500000) (Some 800000) ''2015-04-01'' ''2024-04-01'' =
     Some \<lparr> capitalGains = Fin 300000, taxLiability = Fin 60000,
            purchaseAmount = Fin 500000, saleAmount = Fin 800000 \<rparr> \<and>
   calculateTax (Some 500000) (Some 800000) ''2023-12-31'' ''2024-04-01'' =
     calculateTax (Some 500000) (Some 800000) ''2015-04-01'' ''2024-04-01''"
  using capital_gains_flat_rate[of "''2015-04-01''" "''2024-04-01''" "''2023-12-31''" "''2024-04-01''"
      500000 800000]
  by simp

section \<open>Tax deferral: the deferred balance dominates\<close>






section \<open>FD sustainability\<close>









section \<open>Buy vs Rent: the break-even year\<close>











section \<open>The yearly recurrence in FIRE and First-Crore\<close>

lemma spec_recurrence_Nil: "spec_recurrence [] s r c"
  by (simp add: spec_recurrence_def)

lemma spec_recurrence_Cons:
  "spec_recurrence (x # xs) s r c \<longleftrightarrow> x = s * Fin (1 + r) + Fin c \<and> spec_recurrence xs x r c"
proof
  assume h: "spec_recurrence (x # xs) s r c"
  then have "x = s * Fin (1 + r) + Fin c" unfolding spec_recurrence_def by fastforce
  moreover have "spec_recurrence xs x r c"
    unfolding spec_recurrence_def
  proof (intro allI impI)
    fix k assume "k < length xs"
    then have "Suc k < length (x # xs)" by simp
    with h have "(x # xs) ! Suc k =
        (if Suc k = 0 then s else (x # xs) ! (Suc k - 1)) * Fin (1 + r) + Fin c"
      unfolding spec_recurrence_def by blast
    then show "xs ! k = (if k = 0 then x else xs ! (k - 1)) * Fin (1 + r) + Fin c"
      by (cases k) simp_all
  qed
  ultimately show "x = s * Fin (1 + r) + Fin c \<and> spec_recurrence xs x r c" ..
next
  assume h: "x = s * Fin (1 + r) + Fin c \<and> spec_recurrence xs x r c"
  show "spec_recurrence (x # xs) s r c"
    unfolding spec_recurrence_def
  proof (intro allI impI)
    fix k assume k: "k < length (x # xs)"
    show "(x # xs) ! k = (if k = 0 then s else (x # xs) ! (k - 1)) * Fin (1 + r) + Fin c"
    proof (cases k)
      case 0
      then show ?thesis using h by simp
    next
      case (Suc j)
      with k have "j < length xs" by simp
      with h have "xs ! j = (if j = 0 then x else xs ! (j - 1)) * Fin (1 + r) + Fin c"
        unfolding spec_recurrence_def by blast
      then show ?thesis unfolding Suc by (cases j) simp_all
    qed
  qed
qed

lemma fire_loop_recurrence:
  "spec_recurrence (map totalCorpus (fire_loop a m f (Fin r) (Fin s) ys (Fin c))) (Fin c) r (s * 12) \<and>
   (\<forall>row \<in> set (fire_loop a m f (Fin r) (Fin s) ys (Fin c)). \<exists>v. totalCorpus row = Fin v)"
proof (induction ys arbitrary: c)
  case Nil
  then show ?case by (simp add: spec_recurrence_Nil)
next
  case (Cons year rest)
  have alg: "c + c * r + s * 12 = c * (1 + r) + s * 12" by (simp add: algebra_simps)
  show ?case using Cons.IH[of "c + c * r + s * 12"]
    by (simp add: Let_def spec_recurrence_Cons alg)
qed


lemma spec_recurrence_snoc:
  assumes "spec_recurrence xs s r c"
    and "x = (if xs = [] then s else last xs) * Fin (1 + r) + Fin c"
  shows "spec_recurrence (xs @ [x]) s r c"
  unfolding spec_recurrence_def
proof (intro allI impI)
  fix k assume k: "k < length (xs @ [x])"
  show "(xs @ [x]) ! k = (if k = 0 then s else (xs @ [x]) ! (k - 1)) * Fin (1 + r) + Fin c"
  proof (cases "k < length xs")
    case True
    then have "k - 1 < length xs" by simp
    with True have "(xs @ [x]) ! k = xs ! k" and "(xs @ [x]) ! (k - 1) = xs ! (k - 1)"
      by (simp_all only: nth_append if_True)
    moreover from assms(1) True
    have "xs ! k = (if k = 0 then s else xs ! (k - 1)) * Fin (1 + r) + Fin c"
      unfolding spec_recurrence_def by blast
    ultimately show ?thesis by simp
  next
    case False
    with k have kl: "k = length xs" by simp
    show ?thesis
    proof (cases "xs = []")
      case True
      then show ?thesis using kl assms(2) by simp
    next
      case ne: False
      then have "(xs @ [x]) ! (k - 1) = last xs" unfolding kl
        by (simp add: nth_append last_conv_nth)
      moreover have "k \<noteq> 0" using kl ne by simp
      ultimately show ?thesis using kl ne assms(2) by simp
    qed
  qed
qed

lemma fc_loop_recurrence:
  assumes "spec_recurrence (map fc_projectedValue rows) (Fin c0) r (m * 12 * (1 + r / 2))"
    and "Fin v = (if rows = [] then Fin c0 else fc_projectedValue (last rows))"
  shows "spec_recurrence
           (map fc_projectedValue (fst (fc_loop prior (Fin m) (Fin r) ys (rows, Fin v, Fin ti, st))))
           (Fin c0) r (m * 12 * (1 + r / 2))"
  using assms
proof (induction ys arbitrary: rows v ti st)
  case Nil
  then show ?case by simp
next
  case (Cons year rest)
  let ?v = "v + m * 12 + (v + m * 12 / 2) * r"
  let ?row = "\<lparr> fc_year = year, fc_investedAmount = Fin (ti + m * 12),
                 fc_projectedValue = Fin ?v, yearlyReturns = Fin ((v + m * 12 / 2) * r) \<rparr>"
  have alg: "?v = v * (1 + r) + m * 12 * (1 + r / 2)" by (simp add: algebra_simps)
  have prev: "(if map fc_projectedValue rows = [] then Fin c0
               else last (map fc_projectedValue rows)) = Fin v"
    using Cons.prems(2) by (simp add: last_map)
  have rec: "spec_recurrence (map fc_projectedValue (rows @ [?row])) (Fin c0) r
               (m * 12 * (1 + r / 2))"
    using spec_recurrence_snoc[OF Cons.prems(1), of "Fin ?v"] prev alg by simp
  have lst: "Fin ?v = (if rows @ [?row] = [] then Fin c0
                       else fc_projectedValue (last (rows @ [?row])))" by simp
  show ?case using Cons.IH[OF rec lst] by (simp add: Let_def)
qed

lemma fc_valid:
  assumes "fc_errors cs mi er rp tt = []"
  shows "\<exists>y. parseInt tt = Fin y \<and> 1 \<le> y \<and> y = of_int \<lfloor>y\<rfloor>"
proof -
  from assms have ne: "tt \<noteq> None" and "\<not> parseInt tt < Fin 1"
    by (simp_all add: fc_errors_def split: if_splits)
  then obtain v where v: "tt = Some v" by auto
  have "parseInt tt = Fin (of_int (if 0 \<le> v then \<lfloor>v\<rfloor> else \<lceil>v\<rceil>))"
    unfolding v by (simp add: parseInt_def)
  with \<open>\<not> parseInt tt < Fin 1\<close> show ?thesis by auto
qed

lemma fc_loop_rows_nonempty:
  "ys \<noteq> [] \<Longrightarrow> fst (fc_loop prior m r ys (rows, ca, ti, st)) \<noteq> []"
proof (induction ys arbitrary: rows ca ti st)
  case Nil
  then show ?case by simp
next
  case (Cons year rest)
  show ?case
  proof (cases "rest = []")
    case True
    then show ?thesis by (simp add: Let_def)
  next
    case False
    from Cons.IH[OF False] show ?thesis by (simp add: Let_def)
  qed
qed

lemma fire_results:
  assumes "calculateFIRE (Some a) (Some c) (Some inc) (Some ex) (Some sr) (Some pre) post
             (Some tgt) (Some infl) = Some res"
  shows "projections res \<noteq> [] \<and>
         (\<exists>ys. projections res =
            fire_loop (parseInt (Some a)) (Fin ex) (Fin (infl / 100)) (Fin (pre / 100))
              (Fin (inc * (sr / 100))) ys (Fin c))"
  using assms unfolding calculateFIRE_def Let_def
  by (auto simp: parseFloat_def split: if_splits option.splits)

text \<open>
  Claim C3. In every stored FIRE result the corpus follows
  \<open>amount' = amount*(1+r) + yearlyContribution\<close>, with \<open>r\<close> the pre-retirement return as a
  decimal, the yearly contribution 12 times the monthly savings and the current savings as
  the starting amount. In the First-Crore projection the year's contribution earns returns
  for half a year: \<open>amount' = amount*(1+r) + yearlyContribution*(1 + r/2)\<close>, with the yearly
  contribution 12 times the monthly investment.
\<close>

theorem reinvestment_recurrences:
  "(calculateFIRE (Some a) (Some c) (Some inc) (Some ex) (Some sr) (Some pre) post
      (Some tgt) (Some infl) = Some res \<longrightarrow>
      projections res \<noteq> [] \<and>
      spec_recurrence (map totalCorpus (projections res)) (Fin c) (pre / 100)
        (inc * (sr / 100) * 12) \<and>
      (\<forall>row \<in> set (projections res). \<exists>v. totalCorpus row = Fin v))
   \<and> (fc_errors (Some c') (Some m) (Some R) riskProfile (Some T) = [] \<longrightarrow>
      (\<exists>res'. calculatePath (Some c') (Some m) (Some R) riskProfile (Some T) prior = Some res' \<and>
         yearlyProjections res' \<noteq> [] \<and>
         spec_recurrence (map fc_projectedValue (yearlyProjections res')) (Fin c') (R / 100)
           (m * 12 * (1 + R / 100 / 2))))"
proof (intro conjI impI)
  assume h: "calculateFIRE (Some a) (Some c) (Some inc) (Some ex) (Some sr) (Some pre) post
      (Some tgt) (Some infl) = Some res"
  from fire_results[OF h] obtain ys where
    ne: "projections res \<noteq> []" and
    rows: "projections res = fire_loop (parseInt (Some a)) (Fin ex) (Fin (infl / 100))
             (Fin (pre / 100)) (Fin (inc * (sr / 100))) ys (Fin c)"
    by blast
  show "projections res \<noteq> []" by (rule ne)
  show "spec_recurrence (map totalCorpus (projections res)) (Fin c) (pre / 100)
        (inc * (sr / 100) * 12)"
    unfolding rows using fire_loop_recurrence by blast
  show "\<forall>row \<in> set (projections res). \<exists>v. totalCorpus row = Fin v"
    unfolding rows using fire_loop_recurrence by blast
next
  assume v: "fc_errors (Some c') (Some m) (Some R) riskProfile (Some T) = []"
  from fc_valid[OF v] obtain y where y: "parseInt (Some T) = Fin y" "1 \<le> y" "y = of_int \<lfloor>y\<rfloor>"
    by blast
  let ?ys = "[1 ..< nat (\<lfloor>y\<rfloor> + 1)]"
  have "1 \<le> \<lfloor>y\<rfloor>" using y(2) by linarith
  then have "1 < nat (\<lfloor>y\<rfloor> + 1)" by linarith
  then have "0 < nat (\<lfloor>y\<rfloor> + 1) - 1" by linarith
  then have "0 < length ?ys" by (simp only: length_upt)
  then have ys: "?ys \<noteq> []" by (metis length_greater_0_conv)
  have init: "js_or (parseFloat (Some c')) (Fin 0) = Fin c'"
    by (simp add: js_or_def parseFloat_def)
  let ?L = "fc_loop prior (Fin m) (Fin (R / 100)) ?ys ([], Fin c', Fin c', prior)"
  have res: "calculatePath (Some c') (Some m) (Some R) riskProfile (Some T) prior =
      Some \<lparr> yearsToTarget = Fin y,
             fc_monthlyInvestmentRequired = Fin m,
             totalInvestment = fst (snd (snd ?L)),
             totalReturns = fst (snd ?L) - fst (snd (snd ?L)),
             yearlyProjections = fst ?L \<rparr>"
    unfolding calculatePath_def Let_def init y(1) using v
    by (simp add: parseFloat_def split: prod.splits)
  have rec: "spec_recurrence (map fc_projectedValue (fst ?L)) (Fin c') (R / 100)
               (m * 12 * (1 + R / 100 / 2))"
    by (rule fc_loop_recurrence) (simp_all add: spec_recurrence_Nil)
  have "fst ?L \<noteq> []" by (rule fc_loop_rows_nonempty[OF ys])
  with res rec show "\<exists>res'. calculatePath (Some c') (Some m) (Some R) riskProfile (Some T) prior
         = Some res' \<and> yearlyProjections res' \<noteq> [] \<and>
         spec_recurrence (map fc_projectedValue (yearlyProjections res')) (Fin c') (R / 100)
           (m * 12 * (1 + R / 100 / 2))"
    by simp
qed

theorem reinvestment_recurrences_witness:
  "(\<exists>res. calculateFIRE (Some 30) (Some 100000) (Some 50000) (Some 20000) (Some 20) (Some 10)
             (Some 6) (Some 31) (Some 5) = Some res \<and>
      map totalCorpus (projections res) = [Fin 230000, Fin 373000] \<and>
      spec_recurrence (map totalCorpus (projections res)) (Fin 100000) (10 / 100)
        (50000 * (20 / 100) * 12)) \<and>
   fc_errors (Some 100000) (Some 1000) (Some 10) ''moderate'' (Some 2) = [] \<and>
   (\<exists>res'. calculatePath (Some 100000) (Some 1000) (Some 10) ''moderate'' (Some 2) None = Some res' \<and>
      spec_recurrence (map fc_projectedValue (yearlyProjections res')) (Fin 100000) (10 / 100)
        (1000 * 12 * (1 + 10 / 100 / 2)))"
proof -
  have ys: "[0 ..< 2] = [0, Suc 0]" by (simp add: upt_rec)
  have "map_option projections
          (calculateFIRE (Some 30) (Some 100000) (Some 50000) (Some 20000) (Some 20) (Some 10)
             (Some 6) (Some 31) (Some 5)) =
        Some [\<lparr> fire_year = 0, fire_age = Fin 30, savings = Fin 120000,
                 fire_investmentReturns = Fin 10000, totalCorpus = Fin 230000,
                 yearlyExpenses = Fin 240000 \<rparr>,
              \<lparr> fire_year = 1, fire_age = Fin 31, savings = Fin 120000,
                 fire_investmentReturns = Fin 23000, totalCorpus = Fin 373000,
                 yearlyExpenses = Fin 252000 \<rparr>]"
    by (simp add: calculateFIRE_def fire_errors_def parseFloat_def parseInt_def Let_def ys
        pow_fin_pos)
  then obtain res where res: "calculateFIRE (Some 30) (Some 100000) (Some 50000) (Some 20000)
      (Some 20) (Some 10) (Some 6) (Some 31) (Some 5) = Some res"
    and rows: "map totalCorpus (projections res) = [Fin 230000, Fin 373000]"
    unfolding map_option_eq_Some by auto
  have v: "fc_errors (Some 100000) (Some 1000) (Some 10) ''moderate'' (Some 2) = []"
    by (simp add: fc_errors_def parseFloat_def parseInt_def)
  note t = reinvestment_recurrences[of 30 100000 50000 20000 20 10 "Some 6" 31 5 res
      100000 1000 10 "''moderate''" 2 None]
  note t1 = t[THEN conjunct1, rule_format, OF res]
  note t2 = t[THEN conjunct2, rule_format, OF v]
  from t1 have r1: "spec_recurrence (map totalCorpus (projections res)) (Fin 100000) (10 / 100)
        (50000 * (20 / 100) * 12)" by (elim conjE)
  show ?thesis
  proof (intro conjI)
    show "\<exists>res. calculateFIRE (Some 30) (Some 100000) (Some 50000) (Some 20000) (Some 20) (Some 10)
             (Some 6) (Some 31) (Some 5) = Some res \<and>
      map totalCorpus (projections res) = [Fin 230000, Fin 373000] \<and>
      spec_recurrence (map totalCorpus (projections res)) (Fin 100000) (10 / 100)
        (50000 * (20 / 100) * 12)"
      using res rows r1 by (intro exI[of _ res] conjI)
    show "fc_errors (Some 100000) (Some 1000) (Some 10) ''moderate'' (Some 2) = []" by (rule v)
    from t2 obtain res' where
      "calculatePath (Some 100000) (Some 1000) (Some 10) ''moderate'' (Some 2) None = Some res'"
      "spec_recurrence (map fc_projectedValue (yearlyProjections res')) (Fin 100000) (10 / 100)
        (1000 * 12 * (1 + 10 / 100 / 2))" by (elim exE conjE)
    then show "\<exists>res'. calculatePath (Some 100000) (Some 1000) (Some 10) ''moderate'' (Some 2) None
         = Some res' \<and>
      spec_recurrence (map fc_projectedValue (yearlyProjections res')) (Fin 100000) (10 / 100)
        (1000 * 12 * (1 + 10 / 100 / 2))"
      by (intro exI[of _ res'] conjI)
  qed
qed

text \<open>
  The First-Crore projection does not follow the recurrence of the specification: from
  savings 100,000, a monthly investment of 1,000 and a return of 10 percent, the first year
  ends at 122,600, not at \<open>100,000 * 1.1 + 12,000 = 122,000\<close>.
\<close>

theorem first_crore_recurrence_counterexample:
  "map_option yearlyProjections
     (calculatePath (Some 100000) (Some 1000) (Some 10) ''moderate'' (Some 1) None) =
     Some [\<lparr> fc_year = 1, fc_investedAmount = Fin 112000, fc_projectedValue = Fin 122600,
             yearlyReturns = Fin 10600 \<rparr>] \<and>
   \<not> spec_recurrence [Fin 122600] (Fin 100000) (10 / 100) (1000 * 12)"
proof -
  have ys: "[Suc 0 ..< 2] = [Suc 0]" by (simp add: upt_rec)
  show ?thesis
    by (simp add: calculatePath_def fc_errors_def parseFloat_def parseInt_def Let_def ys
        js_or_def spec_recurrence_def)
qed

section \<open>Hidden state and the clock\<close>




section \<open>Equity returns on a zero-length span\<close>

text \<open>
  Claim C8 asks for a defined fallback on a zero-duration date span. \<open>calculateReturns\<close>
  has none: when the investment date (2023-11-15, midnight UTC) is the instant of the
  computation, \<open>years\<close> is 0, the exponent \<open>1/years\<close> and the annualized return are
  infinite and the dividend yield is \<open>0/0\<close>, and both are stored in the results.
\<close>

theorem equity_zero_span_not_finite:
  "map_option annualizedReturn
     (calculateReturns (Some 100000) (Some 1700006400000) (Some 150000) None (Some 6)
        1700006400000) = Some PInf \<and>
   map_option dividendYield
     (calculateReturns (Some 100000) (Some 1700006400000) (Some 150000) None (Some 6)
        1700006400000) = Some NaN"
  by (simp add: calculateReturns_def eq_errors_def parseFloat_def getTime_def js_or_def Let_def
      minus_jsnum_def)

end
